theory Spec2Isabelle
  imports Complex_Main
begin

section \<open>Numeric values\<close>

text \<open>
  The engine computes on numpy float64 arrays.  A float is modelled by its IEEE-754 value
  class: a finite number (an exact real: rounding and overflow are not modelled, and the
  two signed zeros are one value), the two infinities, and NaN.  Division by zero and the
  mean of an empty array therefore give the infinities and NaN that numpy gives (with a
  warning, not an exception), and every comparison with NaN is false.
\<close>

datatype fl = Fin real | PInf | NInf | NaN

fun fl_neg :: "fl \<Rightarrow> fl" where
  "fl_neg (Fin a) = Fin (- a)"
| "fl_neg PInf = NInf"
| "fl_neg NInf = PInf"
| "fl_neg NaN = NaN"

fun fl_add :: "fl \<Rightarrow> fl \<Rightarrow> fl" where
  "fl_add NaN y = NaN"
| "fl_add x NaN = NaN"
| "fl_add (Fin a) (Fin b) = Fin (a + b)"
| "fl_add PInf NInf = NaN"
| "fl_add NInf PInf = NaN"
| "fl_add PInf y = PInf"
| "fl_add x PInf = PInf"
| "fl_add NInf y = NInf"
| "fl_add x NInf = NInf"

definition fl_sub :: "fl \<Rightarrow> fl \<Rightarrow> fl" where
  "fl_sub x y = fl_add x (fl_neg y)"

text \<open>The sign of a value that is not NaN: 1, 0 or -1.\<close>

fun fl_sgn :: "fl \<Rightarrow> int" where
  "fl_sgn (Fin a) = (if a > 0 then 1 else if a < 0 then - 1 else 0)"
| "fl_sgn PInf = 1"
| "fl_sgn NInf = - 1"
| "fl_sgn NaN = 0"

definition inf_of_sgn :: "int \<Rightarrow> fl" where
  "inf_of_sgn s = (if s = 0 then NaN else if s > 0 then PInf else NInf)"

fun fl_mul :: "fl \<Rightarrow> fl \<Rightarrow> fl" where
  "fl_mul NaN y = NaN"
| "fl_mul x NaN = NaN"
| "fl_mul (Fin a) (Fin b) = Fin (a * b)"
| "fl_mul x y = inf_of_sgn (fl_sgn x * fl_sgn y)"

fun fl_div :: "fl \<Rightarrow> fl \<Rightarrow> fl" where
  "fl_div NaN y = NaN"
| "fl_div x NaN = NaN"
| "fl_div (Fin a) (Fin b) = (if b = 0 then inf_of_sgn (fl_sgn (Fin a)) else Fin (a / b))"
| "fl_div (Fin a) y = Fin 0"
| "fl_div x (Fin b) = (if b < 0 then fl_neg x else x)"
| "fl_div x y = NaN"

text \<open>\<open>x > y\<close> on floats.\<close>

fun fl_gt :: "fl \<Rightarrow> fl \<Rightarrow> bool" where
  "fl_gt NaN y = False"
| "fl_gt x NaN = False"
| "fl_gt (Fin a) (Fin b) = (a > b)"
| "fl_gt PInf PInf = False"
| "fl_gt PInf y = True"
| "fl_gt x PInf = False"
| "fl_gt NInf y = False"
| "fl_gt x NInf = True"

text \<open>\<open>x <= y\<close> on floats.\<close>

definition fl_le :: "fl \<Rightarrow> fl \<Rightarrow> bool" where
  "fl_le x y = (x \<noteq> NaN \<and> y \<noteq> NaN \<and> \<not> fl_gt x y)"

fun fl_sqrt :: "fl \<Rightarrow> fl" where
  "fl_sqrt (Fin a) = (if a < 0 then NaN else Fin (sqrt a))"
| "fl_sqrt PInf = PInf"
| "fl_sqrt NInf = NaN"
| "fl_sqrt NaN = NaN"

section \<open>Exceptions\<close>

datatype error = KeyError | ValueError | ZeroDivisionError | TypeError

section \<open>The numpy operations the engine calls\<close>

text \<open>\<open>np.sum\<close>, and Python's \<open>sum\<close> on a list of floats.\<close>

definition np_sum :: "fl list \<Rightarrow> fl" where
  "np_sum xs = foldl fl_add (Fin 0) xs"

text \<open>\<open>np.mean\<close>: NaN on an empty array.\<close>

definition np_mean :: "fl list \<Rightarrow> fl" where
  "np_mean xs = fl_div (np_sum xs) (Fin (real (length xs)))"

text \<open>\<open>np.max\<close>: raises on an empty array, NaN as soon as one entry is NaN.\<close>

definition fl_max :: "fl \<Rightarrow> fl \<Rightarrow> fl" where
  "fl_max x y = (if x = NaN \<or> y = NaN then NaN else if fl_gt y x then y else x)"

definition np_max :: "fl list \<Rightarrow> error + fl" where
  "np_max xs = (case xs of [] \<Rightarrow> Inl ValueError | x # r \<Rightarrow> Inr (foldl fl_max x r))"

text \<open>Column \<open>j\<close> of a two-dimensional array given as the list of its rows.\<close>

definition column :: "fl list list \<Rightarrow> nat \<Rightarrow> fl list" where
  "column a j = map (\<lambda>r. r ! j) a"

definition ragged :: "fl list list \<Rightarrow> bool" where
  "ragged a = (\<exists>r \<in> set a. length r \<noteq> length (hd a))"

text \<open>
  \<open>np.average(a, axis=0, weights=w)\<close> for a list \<open>a\<close> of one-dimensional arrays and
  one-dimensional weights.  The list must convert to a rectangular array, the weights must
  have one entry per row, and weights that sum to exactly zero raise ZeroDivisionError.
  An empty list is the empty one-dimensional array, whose weights sum to zero.
\<close>

definition np_average :: "fl list list \<Rightarrow> fl list \<Rightarrow> error + fl list" where
  "np_average a w =
     (if ragged a then Inl ValueError
      else if length w \<noteq> length a then Inl ValueError
      else if np_sum w = Fin 0 then Inl ZeroDivisionError
      else Inr (map (\<lambda>j. fl_div (np_sum (map2 fl_mul (column a j) w)) (np_sum w))
                  [0 ..< length (hd a)]))"

text \<open>\<open>np.average(a, weights=w)\<close> for a one-dimensional \<open>a\<close>.\<close>

definition np_average1 :: "fl list \<Rightarrow> fl list \<Rightarrow> error + fl" where
  "np_average1 a w =
     (if length w \<noteq> length a then Inl ValueError
      else if np_sum w = Fin 0 then Inl ZeroDivisionError
      else Inr (fl_div (np_sum (map2 fl_mul a w)) (np_sum w)))"

text \<open>\<open>np.std(a, axis=0)\<close>: the population standard deviation of every column.\<close>

definition np_std1 :: "fl list \<Rightarrow> fl" where
  "np_std1 xs =
     (let m = np_mean xs
      in fl_sqrt (np_mean (map (\<lambda>x. fl_mul (fl_sub x m) (fl_sub x m)) xs)))"

definition np_std :: "fl list list \<Rightarrow> fl list" where
  "np_std a = map (\<lambda>j. np_std1 (column a j)) [0 ..< length (hd a)]"

text \<open>
  \<open>np.convolve(a, v, mode='valid')\<close>: the two arguments are swapped when the second is
  longer, an empty argument raises, and the result has
  \<open>max(M, N) - min(M, N) + 1\<close> entries.
\<close>

definition np_convolve_valid :: "fl list \<Rightarrow> fl list \<Rightarrow> error + fl list" where
  "np_convolve_valid a0 v0 =
     (let a = (if length v0 > length a0 then v0 else a0);
          v = (if length v0 > length a0 then a0 else v0);
          n = length v
      in if a = [] then Inl ValueError
         else if v = [] then Inl ValueError
         else Inr (map (\<lambda>k. np_sum (map (\<lambda>j. fl_mul (a ! (k + j)) (v ! (n - 1 - j))) [0 ..< n]))
                     [0 ..< length a - n + 1]))"

text \<open>\<open>np.full(n, x)\<close>: a negative dimension raises.\<close>

definition np_full :: "int \<Rightarrow> fl \<Rightarrow> error + fl list" where
  "np_full n x = (if n < 0 then Inl ValueError else Inr (replicate (nat n) x))"

text \<open>Python's \<open>max(0, x)\<close>: \<open>x\<close> when \<open>x > 0\<close>, else 0.\<close>

definition py_max0 :: "fl \<Rightarrow> fl" where
  "py_max0 x = (if fl_gt x (Fin 0) then x else Fin 0)"

section \<open>Data model\<close>

text \<open>
  A cell of a DataFrame: a missing value (NaN, None, NaT), a string, an integer, a float,
  or a pair (the \<open>date_range\<close> of a temporal segment is one).
\<close>

datatype val = NA | S string | I int | F fl | T val val

text \<open>
  A DataFrame: the column labels in order, and the rows.  A row gives the cell under every
  label; under a label that is not a column of the frame it is \<open>NA\<close>.
\<close>

record dataframe =
  columns :: "string list"
  rows :: "(string \<Rightarrow> val) list"

record DataSegment =
  segment_id :: string
  data :: dataframe
  metadata :: "string \<rightharpoonup> val"
  segment_type :: string

text \<open>
  The library functions the engine calls and whose results it only passes on: the order in
  which pandas sorts group keys, Python's \<open>str\<close>, the calendar period of a date
  (\<open>pd.to_datetime(..).dt.to_period(freq)\<close>, which may raise), the minimum and maximum
  of a column, k-means clustering (\<open>KMeans(n_clusters, random_state=42).fit_predict\<close>),
  and the two statistical models (\<open>None\<close> when fitting or forecasting raises).
  Nothing is assumed about them.
\<close>

record lib =
  val_le :: "val \<Rightarrow> val \<Rightarrow> bool"
  str_of :: "val \<Rightarrow> string"
  to_period :: "string \<Rightarrow> val \<Rightarrow> error + val"
  series_min :: "val list \<Rightarrow> error + val"
  series_max :: "val list \<Rightarrow> error + val"
  kmeans :: "int \<Rightarrow> val list list \<Rightarrow> error + int list"
  arima :: "fl list \<Rightarrow> int \<Rightarrow> fl list option"
  exp_smoothing :: "fl list \<Rightarrow> int \<Rightarrow> fl list option"

text \<open>\<open>df[c]\<close>: KeyError when \<open>c\<close> is not a column.\<close>

definition getcol :: "dataframe \<Rightarrow> string \<Rightarrow> error + val list" where
  "getcol df c =
     (if c \<in> set (columns df) then Inr (map (\<lambda>r. r c) (rows df)) else Inl KeyError)"

text \<open>A cell as a float: a missing value is NaN, a string is not a number.\<close>

fun as_num :: "val \<Rightarrow> error + fl" where
  "as_num NA = Inr NaN"
| "as_num (I n) = Inr (Fin (real_of_int n))"
| "as_num (F x) = Inr x"
| "as_num (S s) = Inl TypeError"
| "as_num (T a b) = Inl TypeError"

text \<open>Running a list of fallible steps: the first exception is the result.\<close>

fun collect :: "(error + 'a) list \<Rightarrow> error + 'a list" where
  "collect [] = Inr []"
| "collect (x # xs) =
     (case x of Inl e \<Rightarrow> Inl e
      | Inr v \<Rightarrow> (case collect xs of Inl e \<Rightarrow> Inl e | Inr vs \<Rightarrow> Inr (v # vs)))"

text \<open>\<open>segment.data['price'].values\<close> as a float array.\<close>

definition prices_of :: "DataSegment \<Rightarrow> error + fl list" where
  "prices_of seg =
     (case getcol (data seg) ''price'' of Inl e \<Rightarrow> Inl e
      | Inr vs \<Rightarrow> collect (map as_num vs))"

section \<open>SegmentForecaster\<close>

definition forecast_moving_average :: "DataSegment \<Rightarrow> int \<Rightarrow> nat \<Rightarrow> error + fl list" where
  "forecast_moving_average seg horizon window =
     (case prices_of seg of Inl e \<Rightarrow> Inl e
      | Inr prices \<Rightarrow>
         (case np_convolve_valid prices (replicate window (fl_div (Fin 1) (Fin (real window)))) of
            Inl e \<Rightarrow> Inl e
          | Inr ma \<Rightarrow>
             (let last_ma = (if length ma > 0 then last ma else np_mean prices)
              in np_full horizon last_ma)))"

text \<open>
  \<open>forecast_arima\<close> and \<open>forecast_exponential_smoothing\<close> catch every exception of
  their model and fall back to the moving average (window 7); an exception of the fallback
  itself leaves the function.  The import of the model's library, which each function
  executes before its \<open>try\<close>, is taken to succeed.
\<close>

definition forecast_arima :: "lib \<Rightarrow> DataSegment \<Rightarrow> int \<Rightarrow> error + fl list" where
  "forecast_arima L seg horizon =
     (case prices_of seg of Inl e \<Rightarrow> forecast_moving_average seg horizon 7
      | Inr prices \<Rightarrow>
         (case arima L prices horizon of
            None \<Rightarrow> forecast_moving_average seg horizon 7
          | Some forecast \<Rightarrow> Inr forecast))"

definition forecast_exponential_smoothing :: "lib \<Rightarrow> DataSegment \<Rightarrow> int \<Rightarrow> error + fl list" where
  "forecast_exponential_smoothing L seg horizon =
     (case prices_of seg of Inl e \<Rightarrow> forecast_moving_average seg horizon 7
      | Inr prices \<Rightarrow>
         (case exp_smoothing L prices horizon of
            None \<Rightarrow> forecast_moving_average seg horizon 7
          | Some forecast \<Rightarrow> Inr forecast))"

text \<open>
  The first part of \<open>ensemble_forecast\<close>: the lists \<open>forecasts\<close> and \<open>weights\<close>, as
  a list of pairs.  An exception of the first two members is swallowed (\<open>except: pass\<close>);
  the moving average is called outside any \<open>try\<close>.
\<close>

definition ensemble_members :: "lib \<Rightarrow> DataSegment \<Rightarrow> int \<Rightarrow> error + (fl list \<times> fl) list" where
  "ensemble_members L seg horizon =
     (let m1 = (case forecast_arima L seg horizon of
                  Inl e \<Rightarrow> [] | Inr f \<Rightarrow> [(f, Fin (4 / 10))]);
          m2 = (case forecast_exponential_smoothing L seg horizon of
                  Inl e \<Rightarrow> [] | Inr f \<Rightarrow> [(f, Fin (3 / 10))])
      in case forecast_moving_average seg horizon 7 of
           Inl e \<Rightarrow> Inl e
         | Inr f \<Rightarrow> Inr (m1 @ m2 @ [(f, Fin (3 / 10))]))"

text \<open>The confidence computed from the member forecasts and the combined forecast.\<close>

definition agreement_confidence :: "fl list list \<Rightarrow> fl list \<Rightarrow> fl" where
  "agreement_confidence forecasts ensemble =
     (if length forecasts > 1 then
        (let std = np_mean (np_std forecasts);
             mean = np_mean ensemble
         in if fl_gt mean (Fin 0) then py_max0 (fl_sub (Fin 1) (fl_div std mean))
            else Fin (5 / 10))
      else Fin (6 / 10))"

definition ensemble_forecast :: "lib \<Rightarrow> DataSegment \<Rightarrow> int \<Rightarrow> error + (fl list \<times> fl)" where
  "ensemble_forecast L seg horizon =
     (case ensemble_members L seg horizon of Inl e \<Rightarrow> Inl e
      | Inr ms \<Rightarrow>
         (let forecasts = map fst ms;
              weights = map (\<lambda>w. fl_div w (np_sum (map snd ms))) (map snd ms)
          in case np_average forecasts weights of Inl e \<Rightarrow> Inl e
             | Inr ensemble \<Rightarrow> Inr (ensemble, agreement_confidence forecasts ensemble)))"

section \<open>ForecastMerger\<close>

text \<open>
  A segment forecast is the dict with the keys \<open>segment_id\<close>, \<open>forecast\<close>,
  \<open>confidence\<close> and \<open>metadata\<close> that \<open>predict\<close> builds.
\<close>

record SegmentForecast =
  sf_segment_id :: string
  forecast :: "fl list"
  confidence :: fl
  sf_metadata :: "string \<rightharpoonup> val"

text \<open>The values of a result dict, and the dict itself.\<close>

datatype pyval = PStr string | PInt int | PFloat fl | PList "fl list"

type_synonym result = "string \<rightharpoonup> pyval"

text \<open>\<open>sf['metadata'].get('size', 1)\<close> as a number.\<close>

definition size_of :: "SegmentForecast \<Rightarrow> error + fl" where
  "size_of sf =
     (case sf_metadata sf ''size'' of
        None \<Rightarrow> Inr (Fin 1)
      | Some (I n) \<Rightarrow> Inr (Fin (real_of_int n))
      | Some (F x) \<Rightarrow> Inr x
      | Some v \<Rightarrow> Inl TypeError)"

text \<open>
  The weights of \<open>_weighted_average\<close>: \<open>size / total_weight\<close> is a division of Python
  numbers, which raises when the total is zero.
\<close>

definition size_weights :: "SegmentForecast list \<Rightarrow> error + fl list" where
  "size_weights sfs =
     (case collect (map size_of sfs) of Inl e \<Rightarrow> Inl e
      | Inr sizes \<Rightarrow>
         (let total_weight = np_sum sizes
          in if sfs \<noteq> [] \<and> total_weight = Fin 0 then Inl ZeroDivisionError
             else Inr (map (\<lambda>size. fl_div size total_weight) sizes)))"

definition weighted_average :: "SegmentForecast list \<Rightarrow> error + result" where
  "weighted_average sfs =
     (case size_weights sfs of Inl e \<Rightarrow> Inl e
      | Inr weights \<Rightarrow>
         (case np_average (map forecast sfs) weights of Inl e \<Rightarrow> Inl e
          | Inr merged_forecast \<Rightarrow>
             (case np_average1 (map confidence sfs) weights of Inl e \<Rightarrow> Inl e
              | Inr avg_confidence \<Rightarrow>
                  Inr [''forecast'' \<mapsto> PList merged_forecast,
                       ''confidence'' \<mapsto> PFloat avg_confidence,
                       ''num_segments'' \<mapsto> PInt (int (length sfs)),
                       ''strategy'' \<mapsto> PStr ''weighted_average''])))"

text \<open>
  The weights of \<open>_confidence_based\<close>: a division of numpy arrays, which gives NaN or an
  infinity, and no exception, when the confidences sum to zero.
\<close>

definition confidence_weights :: "SegmentForecast list \<Rightarrow> fl list" where
  "confidence_weights sfs =
     (let confidences = map confidence sfs
      in map (\<lambda>c. fl_div c (np_sum confidences)) confidences)"

definition confidence_based :: "SegmentForecast list \<Rightarrow> error + result" where
  "confidence_based sfs =
     (let weights = confidence_weights sfs
      in case np_average (map forecast sfs) weights of Inl e \<Rightarrow> Inl e
         | Inr merged_forecast \<Rightarrow>
            (case np_max (map confidence sfs) of Inl e \<Rightarrow> Inl e
             | Inr best \<Rightarrow>
                 Inr [''forecast'' \<mapsto> PList merged_forecast,
                      ''confidence'' \<mapsto> PFloat best,
                      ''num_segments'' \<mapsto> PInt (int (length sfs)),
                      ''strategy'' \<mapsto> PStr ''confidence_based'',
                      ''segment_contributions'' \<mapsto> PList weights]))"

text \<open>\<open>s.split(c)\<close> and \<open>sep.join(parts)\<close>.\<close>

fun split_on :: "char \<Rightarrow> string \<Rightarrow> string list" where
  "split_on c [] = [[]]"
| "split_on c (x # xs) =
     (if x = c then [] # split_on c xs
      else (case split_on c xs of [] \<Rightarrow> [[x]] | p # ps \<Rightarrow> (x # p) # ps))"

fun join :: "string \<Rightarrow> string list \<Rightarrow> string" where
  "join sep [] = []"
| "join sep [p] = p"
| "join sep (p # ps) = p @ sep @ join sep ps"

text \<open>The key of the group a forecast belongs to: the first two levels of its id.\<close>

definition hierarchy_key :: "SegmentForecast \<Rightarrow> string" where
  "hierarchy_key sf = join ''_'' (take 2 (split_on (CHR ''_'') (sf_segment_id sf)))"

text \<open>The keys of a dict filled in this order: each key once, at its first position.\<close>

definition insertion_order :: "'a list \<Rightarrow> 'a list" where
  "insertion_order ks = rev (remdups (rev ks))"

text \<open>The \<open>forecast\<close> and \<open>confidence\<close> entries of a group result.\<close>

definition forecast_and_confidence :: "result \<Rightarrow> error + (fl list \<times> fl)" where
  "forecast_and_confidence r =
     (case (r ''forecast'', r ''confidence'') of
        (Some (PList f), Some (PFloat c)) \<Rightarrow> Inr (f, c)
      | other \<Rightarrow> Inl KeyError)"

definition hierarchical_merge :: "SegmentForecast list \<Rightarrow> error + result" where
  "hierarchical_merge sfs =
     (let hierarchy = map (\<lambda>k. filter (\<lambda>sf. hierarchy_key sf = k) sfs)
                          (insertion_order (map hierarchy_key sfs))
      in case collect (map confidence_based hierarchy) of Inl e \<Rightarrow> Inl e
         | Inr group_forecasts \<Rightarrow>
            (case collect (map forecast_and_confidence group_forecasts) of Inl e \<Rightarrow> Inl e
             | Inr finals \<Rightarrow>
                (let final_forecasts = map fst finals;
                     final_confidences = map snd finals;
                     weights = map (\<lambda>c. fl_div c (np_sum final_confidences)) final_confidences
                 in case np_average final_forecasts weights of Inl e \<Rightarrow> Inl e
                    | Inr merged_forecast \<Rightarrow>
                        Inr [''forecast'' \<mapsto> PList merged_forecast,
                             ''confidence'' \<mapsto> PFloat (np_mean final_confidences),
                             ''num_segments'' \<mapsto> PInt (int (length sfs)),
                             ''num_groups'' \<mapsto> PInt (int (length hierarchy)),
                             ''strategy'' \<mapsto> PStr ''hierarchical''])))"

definition merge :: "SegmentForecast list \<Rightarrow> string \<Rightarrow> error + result" where
  "merge sfs strategy =
     (if strategy = ''weighted_average'' then weighted_average sfs
      else if strategy = ''confidence_based'' then confidence_based sfs
      else if strategy = ''hierarchical'' then hierarchical_merge sfs
      else Inl ValueError)"

section \<open>DataSegmenter\<close>

text \<open>A missing cell: pandas drops a row from every group when its key is missing.\<close>

definition is_na :: "val \<Rightarrow> bool" where
  "is_na v = (v = NA \<or> v = F NaN)"

text \<open>Sorting by insertion with the library's order on keys.\<close>

fun insert_by :: "('k \<Rightarrow> 'k \<Rightarrow> bool) \<Rightarrow> 'k \<Rightarrow> 'k list \<Rightarrow> 'k list" where
  "insert_by le x [] = [x]"
| "insert_by le x (y # ys) = (if le x y then x # y # ys else y # insert_by le x ys)"

definition sort_by :: "('k \<Rightarrow> 'k \<Rightarrow> bool) \<Rightarrow> 'k list \<Rightarrow> 'k list" where
  "sort_by le xs = foldr (insert_by le) xs []"

text \<open>
  \<open>df.groupby(keys)\<close>: one group per distinct key, in sorted order; the group of a key
  holds the rows with that key, in their order in the frame.  \<open>key\<close> reads the key of a
  row, \<open>None\<close> when a key cell is missing.
\<close>

definition groupby ::
  "('k \<Rightarrow> 'k \<Rightarrow> bool) \<Rightarrow> ((string \<Rightarrow> val) \<Rightarrow> 'k option) \<Rightarrow> dataframe \<Rightarrow> ('k \<times> dataframe) list" where
  "groupby le key df =
     map (\<lambda>k. (k, df\<lparr>rows := filter (\<lambda>r. key r = Some k) (rows df)\<rparr>))
         (sort_by le (remdups (List.map_filter key (rows df))))"

definition cell_key :: "string \<Rightarrow> (string \<Rightarrow> val) \<Rightarrow> val option" where
  "cell_key c r = (if is_na (r c) then None else Some (r c))"

definition route_key :: "(string \<Rightarrow> val) \<Rightarrow> (val \<times> val) option" where
  "route_key r =
     (if is_na (r ''origin'') \<or> is_na (r ''destination'') then None
      else Some (r ''origin'', r ''destination''))"

text \<open>Tuples are sorted component by component.\<close>

definition pair_le :: "(val \<Rightarrow> val \<Rightarrow> bool) \<Rightarrow> val \<times> val \<Rightarrow> val \<times> val \<Rightarrow> bool" where
  "pair_le le p q = (if fst p = fst q then le (snd p) (snd q) else le (fst p) (fst q))"

text \<open>\<open>len(group) >= self.min_segment_size\<close>.\<close>

definition large_enough :: "int \<Rightarrow> 'k \<times> dataframe \<Rightarrow> bool" where
  "large_enough min_segment_size kg = (int (length (rows (snd kg))) \<ge> min_segment_size)"

definition route_segment :: "lib \<Rightarrow> (val \<times> val) \<times> dataframe \<Rightarrow> DataSegment" where
  "route_segment L kg =
     (case kg of ((origin, dest), grp) \<Rightarrow>
        \<lparr>segment_id = ''route_'' @ str_of L origin @ ''_'' @ str_of L dest,
         data = grp,
         metadata = [''origin'' \<mapsto> origin, ''destination'' \<mapsto> dest,
                     ''size'' \<mapsto> I (int (length (rows grp)))],
         segment_type = ''route''\<rparr>)"

definition segment_by_route :: "lib \<Rightarrow> int \<Rightarrow> dataframe \<Rightarrow> error + DataSegment list" where
  "segment_by_route L min_segment_size df =
     (if ''origin'' \<notin> set (columns df) \<or> ''destination'' \<notin> set (columns df) then Inl KeyError
      else Inr (map (route_segment L)
                  (filter (large_enough min_segment_size)
                     (groupby (pair_le (val_le L)) route_key df))))"

text \<open>
  \<open>df[c] = values\<close>: the frame is changed in place.  An existing column is overwritten,
  a new one is appended; values of another length than the frame raise.
\<close>

definition setcol :: "dataframe \<Rightarrow> string \<Rightarrow> val list \<Rightarrow> error + dataframe" where
  "setcol df c vs =
     (if length vs \<noteq> length (rows df) then Inl ValueError
      else Inr \<lparr>columns = (if c \<in> set (columns df) then columns df else columns df @ [c]),
                rows = map2 (\<lambda>r v. r(c := v)) (rows df) vs\<rparr>)"

definition temporal_segment :: "lib \<Rightarrow> val \<times> dataframe \<Rightarrow> error + DataSegment" where
  "temporal_segment L kg =
     (case kg of (period, grp) \<Rightarrow>
        (case series_min L (map (\<lambda>r. r ''date'') (rows grp)) of Inl e \<Rightarrow> Inl e
         | Inr first_date \<Rightarrow>
            (case series_max L (map (\<lambda>r. r ''date'') (rows grp)) of Inl e \<Rightarrow> Inl e
             | Inr last_date \<Rightarrow>
                 Inr \<lparr>segment_id = ''temporal_'' @ str_of L period,
                      data = grp,
                      metadata = [''period'' \<mapsto> S (str_of L period),
                                  ''size'' \<mapsto> I (int (length (rows grp))),
                                  ''date_range'' \<mapsto> T first_date last_date],
                      segment_type = ''temporal''\<rparr>)))"

text \<open>
  \<open>segment_by_temporal\<close> writes the column \<open>period\<close> into the frame it is given, so it
  returns the frame as it leaves it, next to its result.
\<close>

definition segment_by_temporal ::
  "lib \<Rightarrow> int \<Rightarrow> dataframe \<Rightarrow> string \<Rightarrow> (error + DataSegment list) \<times> dataframe" where
  "segment_by_temporal L min_segment_size df freq =
     (case getcol df ''date'' of Inl e \<Rightarrow> (Inl e, df)
      | Inr dates \<Rightarrow>
         (case collect (map (to_period L freq) dates) of Inl e \<Rightarrow> (Inl e, df)
          | Inr periods \<Rightarrow>
             (case setcol df ''period'' periods of Inl e \<Rightarrow> (Inl e, df)
              | Inr df1 \<Rightarrow>
                 (collect (map (temporal_segment L)
                            (filter (large_enough min_segment_size)
                               (groupby (val_le L) (cell_key ''period'') df1))),
                  df1))))"

text \<open>\<open>group['occupancy_rate'].mean()\<close>: missing cells are skipped.\<close>

definition series_mean :: "val list \<Rightarrow> error + fl" where
  "series_mean vs =
     (case collect (map as_num (filter (\<lambda>v. \<not> is_na v) vs)) of Inl e \<Rightarrow> Inl e
      | Inr xs \<Rightarrow> Inr (np_mean xs))"

definition demand_segment :: "lib \<Rightarrow> val \<times> dataframe \<Rightarrow> error + DataSegment" where
  "demand_segment L kg =
     (case kg of (cluster_id, grp) \<Rightarrow>
        (case cluster_id of
           I n \<Rightarrow>
             (case series_mean (map (\<lambda>r. r ''occupancy_rate'') (rows grp)) of Inl e \<Rightarrow> Inl e
              | Inr avg_occupancy \<Rightarrow>
                  Inr \<lparr>segment_id = ''demand_'' @ str_of L cluster_id,
                       data = grp,
                       metadata = [''cluster_id'' \<mapsto> I n,
                                   ''size'' \<mapsto> I (int (length (rows grp))),
                                   ''avg_occupancy'' \<mapsto> F avg_occupancy],
                       segment_type = ''demand_pattern''\<rparr>)
         | other \<Rightarrow> Inl TypeError))"

text \<open>
  \<open>segment_by_demand_pattern\<close> writes the column \<open>demand_cluster\<close> into the frame it is
  given.  \<open>len(df) // self.min_segment_size\<close> is Python's floor division, which raises on
  a zero divisor.
\<close>

definition segment_by_demand_pattern ::
  "lib \<Rightarrow> int \<Rightarrow> dataframe \<Rightarrow> (error + DataSegment list) \<times> dataframe" where
  "segment_by_demand_pattern L min_segment_size df =
     (if \<not> set [''days_to_departure'', ''occupancy_rate'', ''price''] \<subseteq> set (columns df)
      then (Inl KeyError, df)
      else if min_segment_size = 0 then (Inl ZeroDivisionError, df)
      else
        (let features = map (\<lambda>r. [r ''days_to_departure'', r ''occupancy_rate'', r ''price''])
                            (rows df);
             n_clusters = min 5 (int (length (rows df)) div min_segment_size)
         in if n_clusters < 2 then (Inr [], df)
            else
              (case kmeans L n_clusters features of Inl e \<Rightarrow> (Inl e, df)
               | Inr labels \<Rightarrow>
                  (case setcol df ''demand_cluster'' (map I labels) of Inl e \<Rightarrow> (Inl e, df)
                   | Inr df1 \<Rightarrow>
                      (collect (map (demand_segment L)
                                 (filter (large_enough min_segment_size)
                                    (groupby (val_le L) (cell_key ''demand_cluster'') df1))),
                       df1)))))"

text \<open>
  The second level of \<open>hierarchical_segmentation\<close> for one route segment.  The temporal
  segmentation writes into the route segment's own copy of its rows, not into the caller's
  frame.
\<close>

definition refine_route :: "lib \<Rightarrow> int \<Rightarrow> DataSegment \<Rightarrow> error + DataSegment list" where
  "refine_route L min_segment_size route_seg =
     (case fst (segment_by_temporal L min_segment_size (data route_seg) ''W'') of
        Inl e \<Rightarrow> Inl e
      | Inr temporal_segments \<Rightarrow>
          Inr (map (\<lambda>temp_seg. temp_seg
                      \<lparr>segment_id := segment_id route_seg @ ''_'' @ segment_id temp_seg,
                       metadata := metadata temp_seg ++ metadata route_seg\<rparr>)
                   temporal_segments))"

definition hierarchical_segmentation :: "lib \<Rightarrow> int \<Rightarrow> dataframe \<Rightarrow> error + DataSegment list" where
  "hierarchical_segmentation L min_segment_size df =
     (case segment_by_route L min_segment_size df of Inl e \<Rightarrow> Inl e
      | Inr route_segments \<Rightarrow>
         (case collect (map (refine_route L min_segment_size) route_segments) of
            Inl e \<Rightarrow> Inl e
          | Inr all_segments \<Rightarrow> Inr (concat all_segments)))"

section \<open>DivideAndConquerForecaster\<close>

text \<open>Phase 1 of \<open>predict\<close>: the segments, and the frame as the segmenter leaves it.\<close>

definition divide ::
  "lib \<Rightarrow> int \<Rightarrow> dataframe \<Rightarrow> string \<Rightarrow> (error + DataSegment list) \<times> dataframe" where
  "divide L min_segment_size df segmentation_strategy =
     (if segmentation_strategy = ''route'' then (segment_by_route L min_segment_size df, df)
      else if segmentation_strategy = ''temporal''
        then segment_by_temporal L min_segment_size df ''M''
      else if segmentation_strategy = ''hierarchical''
        then (hierarchical_segmentation L min_segment_size df, df)
      else if segmentation_strategy = ''demand_pattern''
        then segment_by_demand_pattern L min_segment_size df
      else (Inl ValueError, df))"

text \<open>Phase 2: a segment whose forecast raises is dropped.\<close>

definition conquer :: "lib \<Rightarrow> DataSegment list \<Rightarrow> int \<Rightarrow> SegmentForecast list" where
  "conquer L segments horizon =
     concat (map (\<lambda>seg. case ensemble_forecast L seg horizon of
                          Inl e \<Rightarrow> []
                        | Inr (f, c) \<Rightarrow>
                            [\<lparr>sf_segment_id = segment_id seg, forecast = f, confidence = c,
                              sf_metadata = metadata seg\<rparr>])
                 segments)"

definition predict ::
  "lib \<Rightarrow> int \<Rightarrow> dataframe \<Rightarrow> int \<Rightarrow> string \<Rightarrow> (error + result) \<times> dataframe" where
  "predict L min_segment_size df horizon segmentation_strategy =
     (case divide L min_segment_size df segmentation_strategy of
        (Inl e, df1) \<Rightarrow> (Inl e, df1)
      | (Inr segments, df1) \<Rightarrow>
          if segments = [] then
            (case ensemble_forecast L
                    \<lparr>segment_id = ''global'', data = df1, metadata = Map.empty,
                     segment_type = ''global''\<rparr> horizon of
               Inl e \<Rightarrow> (Inl e, df1)
             | Inr (f, c) \<Rightarrow>
                 (Inr [''forecast'' \<mapsto> PList f, ''confidence'' \<mapsto> PFloat c,
                       ''strategy'' \<mapsto> PStr ''global'', ''num_segments'' \<mapsto> PInt 0],
                  df1))
          else
            (case merge (conquer L segments horizon) ''confidence_based'' of
               Inl e \<Rightarrow> (Inl e, df1)
             | Inr merged_result \<Rightarrow>
                 (Inr (merged_result(''segmentation_strategy'' \<mapsto> PStr segmentation_strategy)),
                  df1)))"

section \<open>Properties and example inputs\<close>

text \<open>
  What a segment must satisfy: its metadata records a size that is at least the threshold,
  and its record set is not empty.
\<close>

definition well_sized :: "int \<Rightarrow> DataSegment \<Rightarrow> bool" where
  "well_sized min_segment_size seg =
     ((case metadata seg ''size'' of Some (I n) \<Rightarrow> min_segment_size \<le> n | other \<Rightarrow> False)
      \<and> rows (data seg) \<noteq> [])"

text \<open>A float that is not negative: a finite number from 0 on, plus infinity, or NaN.\<close>

fun nonneg_or_nan :: "fl \<Rightarrow> bool" where
  "nonneg_or_nan (Fin a) = (0 \<le> a)"
| "nonneg_or_nan PInf = True"
| "nonneg_or_nan NInf = False"
| "nonneg_or_nan NaN = True"

text \<open>
  A library for the examples: both statistical models raise on every series, a date is its
  own period, the first and last cell of a column are its minimum and maximum, the
  clustering puts every record into cluster 0, and only strings are shown as they are.
\<close>

definition show_val :: "val \<Rightarrow> string" where
  "show_val v = (case v of S s \<Rightarrow> s | other \<Rightarrow> ''?'')"

definition failing_lib :: lib where
  "failing_lib =
     \<lparr>val_le = (\<lambda>a b. True),
      str_of = show_val,
      to_period = (\<lambda>freq v. Inr v),
      series_min = (\<lambda>vs. Inr (case vs of [] \<Rightarrow> NA | v # r \<Rightarrow> v)),
      series_max = (\<lambda>vs. Inr (case rev vs of [] \<Rightarrow> NA | v # r \<Rightarrow> v)),
      kmeans = (\<lambda>k features. Inr (map (\<lambda>x. 0) features)),
      arima = (\<lambda>prices horizon. None),
      exp_smoothing = (\<lambda>prices horizon. None)\<rparr>"

text \<open>One record of the route A-B at price \<open>p\<close>.\<close>

definition flight :: "real \<Rightarrow> string \<Rightarrow> val" where
  "flight p c =
     (if c = ''origin'' then S ''A''
      else if c = ''destination'' then S ''B''
      else if c = ''date'' then S ''2024-01-01''
      else if c = ''price'' then F (Fin p)
      else if c = ''days_to_departure'' then I 30
      else if c = ''occupancy_rate'' then F (Fin (1 / 2))
      else NA)"

definition flight_columns :: "string list" where
  "flight_columns =
     [''origin'', ''destination'', ''date'', ''price'', ''days_to_departure'', ''occupancy_rate'']"

text \<open>Seven records at the same price, the frame without records, and a segment.\<close>

definition flat_frame :: "real \<Rightarrow> dataframe" where
  "flat_frame p =
     \<lparr>columns = flight_columns,
      rows = [flight p, flight p, flight p, flight p, flight p, flight p, flight p]\<rparr>"

definition empty_frame :: dataframe where
  "empty_frame = \<lparr>columns = flight_columns, rows = []\<rparr>"

definition flat_segment :: "real \<Rightarrow> DataSegment" where
  "flat_segment p =
     \<lparr>segment_id = ''route_A_B'', data = flat_frame p,
      metadata = [''origin'' \<mapsto> S ''A'', ''destination'' \<mapsto> S ''B'', ''size'' \<mapsto> I 7],
      segment_type = ''route''\<rparr>"

text \<open>A segment forecast with confidence 0, as an ensemble whose members disagree gives.\<close>

definition doubtful_forecast :: SegmentForecast where
  "doubtful_forecast =
     \<lparr>sf_segment_id = ''route_A_B'', forecast = [Fin 100], confidence = Fin 0,
      sf_metadata = [''size'' \<mapsto> I 10]\<rparr>"

text \<open>Two segment forecasts with confidences 0.25 and 0.75 and sizes 10 and 30.\<close>

definition steady_forecasts :: "SegmentForecast list" where
  "steady_forecasts =
     [\<lparr>sf_segment_id = ''route_A_B'', forecast = [Fin 100], confidence = Fin (1 / 4),
       sf_metadata = [''size'' \<mapsto> I 10]\<rparr>,
      \<lparr>sf_segment_id = ''route_A_C'', forecast = [Fin 200], confidence = Fin (3 / 4),
       sf_metadata = [''size'' \<mapsto> I 30]\<rparr>]"

text \<open>
  The entry of a returned dict under a key: \<open>None\<close> when the call raised or the dict
  has no such key.
\<close>

definition entry :: "error + result \<Rightarrow> string \<Rightarrow> pyval option" where
  "entry res k = (case res of Inl e \<Rightarrow> None | Inr r \<Rightarrow> r k)"

text \<open>
  The example frame after the temporal segmentation and after the demand segmentation, and
  the segments that the temporal and the hierarchical segmentation make of it.
\<close>

definition dated_frame :: "real \<Rightarrow> dataframe" where
  "dated_frame p =
     \<lparr>columns = flight_columns @ [''period''],
      rows = [(flight p)(''period'' := S ''2024-01-01''), (flight p)(''period'' := S ''2024-01-01''),
              (flight p)(''period'' := S ''2024-01-01''), (flight p)(''period'' := S ''2024-01-01''),
              (flight p)(''period'' := S ''2024-01-01''), (flight p)(''period'' := S ''2024-01-01''),
              (flight p)(''period'' := S ''2024-01-01'')]\<rparr>"

definition clustered_frame :: "real \<Rightarrow> dataframe" where
  "clustered_frame p =
     \<lparr>columns = flight_columns @ [''demand_cluster''],
      rows = [(flight p)(''demand_cluster'' := I 0), (flight p)(''demand_cluster'' := I 0),
              (flight p)(''demand_cluster'' := I 0), (flight p)(''demand_cluster'' := I 0),
              (flight p)(''demand_cluster'' := I 0), (flight p)(''demand_cluster'' := I 0),
              (flight p)(''demand_cluster'' := I 0)]\<rparr>"

definition period_segment :: "real \<Rightarrow> DataSegment" where
  "period_segment p =
     \<lparr>segment_id = ''temporal_2024-01-01'', data = dated_frame p,
      metadata = [''period'' \<mapsto> S ''2024-01-01'', ''size'' \<mapsto> I 7,
                  ''date_range'' \<mapsto> T (S ''2024-01-01'') (S ''2024-01-01'')],
      segment_type = ''temporal''\<rparr>"

definition leaf_segment :: "real \<Rightarrow> DataSegment" where
  "leaf_segment p =
     (period_segment p)
       \<lparr>segment_id := ''route_A_B_temporal_2024-01-01'',
        metadata := metadata (period_segment p) ++ metadata (flat_segment p)\<rparr>"

section \<open>Facts about the numeric operations\<close>

lemma nonneg_add: "nonneg_or_nan x \<Longrightarrow> nonneg_or_nan y \<Longrightarrow> nonneg_or_nan (fl_add x y)"
  by (cases x; cases y) simp_all

lemma nonneg_foldl:
  "nonneg_or_nan a \<Longrightarrow> (\<And>x. x \<in> set xs \<Longrightarrow> nonneg_or_nan x) \<Longrightarrow>
   nonneg_or_nan (foldl fl_add a xs)"
  by (induction xs arbitrary: a) (simp_all add: nonneg_add)

lemma nonneg_sum: "(\<And>x. x \<in> set xs \<Longrightarrow> nonneg_or_nan x) \<Longrightarrow> nonneg_or_nan (np_sum xs)"
  unfolding np_sum_def by (rule nonneg_foldl) simp_all

lemma nonneg_div_count: "nonneg_or_nan x \<Longrightarrow> nonneg_or_nan (fl_div x (Fin (real n)))"
  by (cases x) (simp_all add: inf_of_sgn_def)

lemma nonneg_mean: "(\<And>x. x \<in> set xs \<Longrightarrow> nonneg_or_nan x) \<Longrightarrow> nonneg_or_nan (np_mean xs)"
  unfolding np_mean_def by (rule nonneg_div_count) (rule nonneg_sum)

lemma nonneg_sqrt: "nonneg_or_nan (fl_sqrt x)"
  by (cases x) simp_all

lemma nonneg_std: "nonneg_or_nan (np_mean (np_std a))"
  by (rule nonneg_mean) (auto simp: np_std_def np_std1_def Let_def nonneg_sqrt)

lemma clamp_bounds:
  assumes "nonneg_or_nan s" and "fl_gt m (Fin 0)"
  shows "fl_le (Fin 0) (py_max0 (fl_sub (Fin 1) (fl_div s m))) \<and>
         fl_le (py_max0 (fl_sub (Fin 1) (fl_div s m))) (Fin 1)"
  using assms
  by (cases s; cases m)
     (auto simp: py_max0_def fl_sub_def fl_le_def inf_of_sgn_def divide_less_0_iff
           split: if_splits)

lemma np_average_length:
  assumes "np_average a w = Inr f" and "r \<in> set a"
  shows "length f = length r"
  using assms by (auto simp: np_average_def ragged_def split: if_splits)

lemma np_average_Nil: "np_average [] w = Inr f \<Longrightarrow> False"
  by (auto simp: np_average_def np_sum_def split: if_splits)

lemma collect_Inr: "collect xs = Inr ys \<Longrightarrow> xs = map Inr ys"
  by (induction xs arbitrary: ys) (auto split: sum.splits)

lemma collect_Nil: "collect [] = Inr []"
  by simp

section \<open>Facts about the segment forecaster\<close>

lemma agreement_confidence_bounds:
  "fl_le (Fin 0) (agreement_confidence fs e) \<and> fl_le (agreement_confidence fs e) (Fin 1)"
  using clamp_bounds [OF nonneg_std]
  by (auto simp: agreement_confidence_def Let_def fl_le_def)

lemma ensemble_forecast_confidence:
  "ensemble_forecast L seg h = Inr (f, c) \<Longrightarrow>
   \<exists>ms. ensemble_members L seg h = Inr ms \<and> c = agreement_confidence (map fst ms) f"
  by (auto simp: ensemble_forecast_def Let_def split: sum.splits)

text \<open>
  Whenever the ensemble returns, it has three members (the libraries of the two models
  being installed): a model that raises is replaced by
  the moving average inside \<open>forecast_arima\<close> and \<open>forecast_exponential_smoothing\<close>,
  and when the moving average raises there, it raises in \<open>ensemble_forecast\<close> as well.
\<close>

lemma ensemble_members_length:
  "ensemble_members L seg h = Inr ms \<Longrightarrow> length ms = 3"
  by (auto simp: ensemble_members_def forecast_arima_def forecast_exponential_smoothing_def
      Let_def split: sum.splits option.splits)

lemma moving_average_length:
  "forecast_moving_average seg h w = Inr f \<Longrightarrow> 0 \<le> h \<and> length f = nat h"
  by (auto simp: forecast_moving_average_def np_full_def Let_def split: sum.splits if_splits)

lemma ensemble_forecast_length:
  assumes "ensemble_forecast L seg h = Inr (f, c)"
  shows "0 \<le> h \<and> length f = nat h"
proof -
  from assms obtain ms where ms: "ensemble_members L seg h = Inr ms"
    and avg: "np_average (map fst ms) (map (\<lambda>w. fl_div w (np_sum (map snd ms))) (map snd ms)) = Inr f"
    by (auto simp: ensemble_forecast_def Let_def split: sum.splits)
  from ms obtain fm where fm: "forecast_moving_average seg h 7 = Inr fm" and "fm \<in> set (map fst ms)"
    by (auto simp: ensemble_members_def Let_def split: sum.splits)
  with avg have "length f = length fm"
    by (rule_tac np_average_length)
  with moving_average_length [OF fm] show ?thesis by simp
qed

lemma empty_moving_average:
  assumes "rows (data seg) = []"
  shows "\<exists>e. forecast_moving_average seg h w = Inl e"
  using assms
  by (auto simp: forecast_moving_average_def prices_of_def getcol_def np_convolve_valid_def
      Let_def split: sum.splits)

lemma empty_ensemble:
  assumes "rows (data seg) = []"
  shows "\<exists>e. ensemble_forecast L seg h = Inl e"
  using empty_moving_average [OF assms, of h 7]
  by (auto simp: ensemble_forecast_def ensemble_members_def Let_def split: sum.splits)

section \<open>The example segment\<close>

lemma flat_prices:
  "data seg = flat_frame p \<Longrightarrow>
   prices_of seg = Inr [Fin p, Fin p, Fin p, Fin p, Fin p, Fin p, Fin p]"
  by (simp add: prices_of_def flat_frame_def flight_columns_def getcol_def flight_def)

lemma flat_window:
  "np_convolve_valid [Fin p, Fin p, Fin p, Fin p, Fin p, Fin p, Fin p]
     (replicate 7 (Fin (1 / 7))) = Inr [Fin p]"
  by (simp add: np_convolve_valid_def np_sum_def eval_nat_numeral upt_conv_Cons)

lemma flat_moving_average:
  "data seg = flat_frame p \<Longrightarrow> 0 \<le> h \<Longrightarrow>
   forecast_moving_average seg h 7 = Inr (replicate (nat h) (Fin p))"
  by (simp add: forecast_moving_average_def flat_prices flat_window np_full_def Let_def)

lemma flat_members:
  "data seg = flat_frame p \<Longrightarrow> 0 \<le> h \<Longrightarrow>
   ensemble_members failing_lib seg h =
     Inr [(replicate (nat h) (Fin p), Fin (4 / 10)), (replicate (nat h) (Fin p), Fin (3 / 10)),
          (replicate (nat h) (Fin p), Fin (3 / 10))]"
  by (simp add: ensemble_members_def forecast_arima_def forecast_exponential_smoothing_def
      flat_prices flat_moving_average failing_lib_def)

lemma static_weights_sum: "np_sum [Fin (2 / 5), Fin (3 / 10), Fin (3 / 10)] = Fin 1"
  by (simp add: np_sum_def)

lemma flat_average:
  "np_average [[Fin p, Fin p], [Fin p, Fin p], [Fin p, Fin p]]
     [Fin (2 / 5), Fin (3 / 10), Fin (3 / 10)] = Inr [Fin p, Fin p]"
  by (simp add: np_average_def ragged_def np_sum_def column_def eval_nat_numeral upt_conv_Cons
      algebra_simps)

lemma flat_std: "np_std [[Fin p, Fin p], [Fin p, Fin p], [Fin p, Fin p]] = [Fin 0, Fin 0]"
  by (simp add: np_std_def np_std1_def np_mean_def fl_sub_def np_sum_def column_def
      eval_nat_numeral upt_conv_Cons)

lemma flat_confidence:
  "agreement_confidence [[Fin p, Fin p], [Fin p, Fin p], [Fin p, Fin p]] [Fin p, Fin p] =
     (if 0 < p then Fin 1 else Fin (5 / 10))"
  by (simp add: agreement_confidence_def flat_std np_mean_def np_sum_def fl_sub_def py_max0_def)

lemma flat_ensemble:
  "data seg = flat_frame p \<Longrightarrow>
   ensemble_forecast failing_lib seg 2 =
     Inr ([Fin p, Fin p], if 0 < p then Fin 1 else Fin (5 / 10))"
  by (simp add: ensemble_forecast_def flat_members static_weights_sum flat_average
      flat_confidence eval_nat_numeral)

lemma flat_segment_data: "data (flat_segment p) = flat_frame p"
  by (simp add: flat_segment_def)

section \<open>Facts about the forecast merger\<close>

lemma foldl_add_Fin: "foldl fl_add (Fin a) (map Fin xs) = Fin (a + sum_list xs)"
  by (induction xs arbitrary: a) (simp_all add: add.assoc)

lemma np_sum_Fin: "np_sum (map Fin xs) = Fin (sum_list xs)"
  by (simp add: np_sum_def foldl_add_Fin)

lemma sum_list_scaled: "sum_list (map (\<lambda>x. x / s) xs) = sum_list xs / (s::real)"
  by (induction xs) (simp_all add: add_divide_distrib)

lemma normalized_Fin:
  "s \<noteq> 0 \<Longrightarrow> map (\<lambda>c. fl_div c (Fin s)) (map Fin xs) = map Fin (map (\<lambda>x. x / s) xs)"
  by simp

lemma normalized_sum:
  assumes "sum_list xs \<noteq> 0"
  shows "np_sum (map (\<lambda>c. fl_div c (np_sum (map Fin xs))) (map Fin xs)) = Fin 1"
  using assms by (simp add: np_sum_Fin normalized_Fin sum_list_scaled del: map_map) 

lemma fl_div_one: "fl_div x (Fin 1) = x"
  by (cases x) simp_all

lemma foldl_max_Fin: "foldl fl_max (Fin x) (map Fin xs) = Fin (fold max xs x)"
  by (induction xs arbitrary: x) (auto simp: fl_max_def max_def)

lemma np_max_Fin: "cs \<noteq> [] \<Longrightarrow> np_max (map Fin cs) = Inr (Fin (Max (set cs)))"
proof (cases cs)
  case Nil
  assume "cs \<noteq> []"
  with Nil show ?thesis by simp
next
  case (Cons x xs)
  have "fold max xs x = Max (set (x # xs))"
    by (rule Max.set_eq_fold [symmetric])
  with Cons show ?thesis
    by (simp add: np_max_def foldl_max_Fin)
qed

lemma confidence_weights_Fin:
  assumes "map confidence sfs = map Fin cs" and "sum_list cs \<noteq> 0"
  shows "confidence_weights sfs = map (\<lambda>c. Fin (c / sum_list cs)) cs"
  using assms by (simp add: confidence_weights_def Let_def np_sum_Fin)

lemma confidence_weights_sum:
  assumes "map confidence sfs = map Fin cs" and "sum_list cs \<noteq> 0"
  shows "np_sum (confidence_weights sfs) = Fin 1"
  using assms normalized_sum [of cs] by (simp add: confidence_weights_def Let_def)

lemma size_weights_sum:
  assumes "collect (map size_of sfs) = Inr (map Fin ns)" and "sum_list ns \<noteq> 0"
  shows "\<exists>ws. size_weights sfs = Inr ws \<and> np_sum ws = Fin 1"
  using assms normalized_sum [of ns] by (simp add: size_weights_def Let_def np_sum_Fin)

lemma size_weights_computed:
  assumes "sfs \<noteq> []" and "collect (map size_of sfs) = Inr (map Fin ns)"
    and "size_weights sfs = Inr ws"
  shows "np_sum ws = Fin 1"
proof -
  from assms have "sum_list ns \<noteq> 0"
    by (auto simp: size_weights_def Let_def np_sum_Fin split: if_splits)
  from size_weights_sum [OF assms(2) this] assms(3) show ?thesis by simp
qed

lemma np_average_normalized:
  assumes "a \<noteq> []" and "\<forall>r \<in> set a. length r = h" and "length w = length a"
    and "np_sum w = Fin 1"
  shows "np_average a w = Inr (map (\<lambda>j. np_sum (map2 fl_mul (column a j) w)) [0 ..< h])"
proof -
  from assms(1,2) have "length (hd a) = h" by (cases a) auto
  with assms show ?thesis
    by (simp add: np_average_def ragged_def fl_div_one)
qed

lemma doubtful_weights: "confidence_weights [doubtful_forecast] = [NaN]"
  by (simp add: confidence_weights_def doubtful_forecast_def np_sum_def inf_of_sgn_def)

lemma doubtful_merge:
  "confidence_based [doubtful_forecast] =
     Inr [''forecast'' \<mapsto> PList [NaN], ''confidence'' \<mapsto> PFloat (Fin 0),
          ''num_segments'' \<mapsto> PInt 1, ''strategy'' \<mapsto> PStr ''confidence_based'',
          ''segment_contributions'' \<mapsto> PList [NaN]]"
  by (simp add: confidence_based_def doubtful_weights Let_def)
     (simp add: doubtful_forecast_def np_average_def ragged_def np_sum_def column_def np_max_def)

lemma steady_conf: "map confidence steady_forecasts = map Fin [1 / 4, 3 / 4]"
  by (simp add: steady_forecasts_def)

lemma steady_sizes: "collect (map size_of steady_forecasts) = Inr (map Fin [10, 30])"
  by (simp add: steady_forecasts_def size_of_def)

lemma steady_size_weights: "size_weights steady_forecasts = Inr [Fin (1 / 4), Fin (3 / 4)]"
  by (simp add: size_weights_def steady_sizes Let_def np_sum_def)

lemma doubtful_size_weights: "size_weights [doubtful_forecast] = Inr [Fin 1]"
  by (simp add: size_weights_def size_of_def doubtful_forecast_def Let_def np_sum_def)

section \<open>Facts about the segmenter\<close>

lemma set_insert_by: "set (insert_by le x xs) = insert x (set xs)"
  by (induction xs) auto

lemma set_sort_by: "set (sort_by le xs) = set xs"
  unfolding sort_by_def by (induction xs) (simp_all add: set_insert_by)

lemma groupby_member:
  assumes "kg \<in> set (groupby le key df)"
  shows "rows (snd kg) = filter (\<lambda>r. key r = Some (fst kg)) (rows df) \<and>
         columns (snd kg) = columns df \<and> rows (snd kg) \<noteq> [] \<and>
         length (rows (snd kg)) \<le> length (rows df)"
proof -
  from assms obtain k where k: "k \<in> set (List.map_filter key (rows df))"
    and kg: "kg = (k, df\<lparr>rows := filter (\<lambda>r. key r = Some k) (rows df)\<rparr>)"
    by (auto simp: groupby_def set_sort_by)
  from k obtain r where "r \<in> set (rows df)" and "key r = Some k"
    by (auto simp: List.map_filter_def)
  then have "filter (\<lambda>r. key r = Some k) (rows df) \<noteq> []"
    by (auto simp: filter_empty_conv)
  with kg show ?thesis by simp
qed

lemma groupby_empty: "rows df = [] \<Longrightarrow> groupby le key df = []"
  by (simp add: groupby_def List.map_filter_def sort_by_def)

lemma collect_member:
  assumes "collect xs = Inr ys" and "y \<in> set ys"
  shows "Inr y \<in> set xs"
  using collect_Inr [OF assms(1)] assms(2) by auto

lemma setcol_rows:
  "setcol df c vs = Inr df1 \<Longrightarrow> length (rows df1) = length (rows df)"
  by (auto simp: setcol_def split: if_splits)

lemma route_well_sized:
  assumes "segment_by_route L m df = Inr segs" and "s \<in> set segs"
  shows "well_sized m s \<and> metadata s ''size'' = Some (I (int (length (rows (data s)))))"
proof -
  from assms obtain kg where kg: "kg \<in> set (groupby (pair_le (val_le L)) route_key df)"
    and big: "large_enough m kg" and s: "s = route_segment L kg"
    by (auto simp: segment_by_route_def split: if_splits)
  from groupby_member [OF kg] big s show ?thesis
    by (cases kg) (auto simp: well_sized_def route_segment_def large_enough_def)
qed

lemma temporal_well_sized:
  assumes "fst (segment_by_temporal L m df freq) = Inr segs" and "s \<in> set segs"
  shows "well_sized m s \<and> metadata s ''size'' = Some (I (int (length (rows (data s)))))"
proof -
  from assms(1) obtain df1 where
    c: "collect (map (temporal_segment L) (filter (large_enough m)
          (groupby (val_le L) (cell_key ''period'') df1))) = Inr segs"
    by (auto simp: segment_by_temporal_def split: sum.splits)
  from collect_member [OF c assms(2)] obtain kg
    where kg: "kg \<in> set (groupby (val_le L) (cell_key ''period'') df1)"
      and big: "large_enough m kg" and s: "temporal_segment L kg = Inr s"
    by auto
  from groupby_member [OF kg] big s show ?thesis
    by (cases kg) (auto simp: well_sized_def temporal_segment_def large_enough_def split: sum.splits)
qed

lemma demand_well_sized:
  assumes "fst (segment_by_demand_pattern L m df) = Inr segs" and "s \<in> set segs"
  shows "well_sized m s"
proof -
  from assms obtain df1 where
    c: "collect (map (demand_segment L) (filter (large_enough m)
          (groupby (val_le L) (cell_key ''demand_cluster'') df1))) = Inr segs"
    by (auto simp: segment_by_demand_pattern_def Let_def split: sum.splits if_splits)
  from collect_member [OF c assms(2)] obtain kg
    where kg: "kg \<in> set (groupby (val_le L) (cell_key ''demand_cluster'') df1)"
      and big: "large_enough m kg" and s: "demand_segment L kg = Inr s"
    by auto
  from groupby_member [OF kg] big s show ?thesis
    by (cases kg) (auto simp: well_sized_def demand_segment_def large_enough_def
        split: sum.splits val.splits)
qed

lemma refine_well_sized:
  assumes "well_sized m rs" and "refine_route L m rs = Inr ts" and "s \<in> set ts"
  shows "well_sized m s"
proof -
  from assms(2,3) obtain segs t where
    t: "fst (segment_by_temporal L m (data rs) ''W'') = Inr segs" "t \<in> set segs"
    and s: "s = t\<lparr>segment_id := segment_id rs @ ''_'' @ segment_id t,
                  metadata := metadata t ++ metadata rs\<rparr>"
    by (auto simp: refine_route_def split: sum.splits)
  from temporal_well_sized [OF t] assms(1) s show ?thesis
    by (auto simp: well_sized_def map_add_def split: option.splits val.splits)
qed

lemma hierarchical_well_sized:
  assumes "hierarchical_segmentation L m df = Inr segs" and "s \<in> set segs"
  shows "well_sized m s"
proof -
  from assms obtain rsegs tss where r: "segment_by_route L m df = Inr rsegs"
    and c: "collect (map (refine_route L m) rsegs) = Inr tss" and "s \<in> set (concat tss)"
    by (auto simp: hierarchical_segmentation_def split: sum.splits)
  then obtain ts where ts: "ts \<in> set tss" and s: "s \<in> set ts" by auto
  from collect_member [OF c ts] obtain rs where rs: "rs \<in> set rsegs"
    and ref: "refine_route L m rs = Inr ts" by auto
  from route_well_sized [OF r rs] have "well_sized m rs" by simp
  from refine_well_sized [OF this ref s] show ?thesis .
qed

section \<open>The segmenter on the example frame\<close>

lemma flat_groupby_route:
  "groupby (pair_le (val_le failing_lib)) route_key (flat_frame p) =
     [((S ''A'', S ''B''), flat_frame p)]"
  by (simp add: groupby_def flat_frame_def List.map_filter_def route_key_def is_na_def
      flight_def sort_by_def)

lemma flat_route: "segment_by_route failing_lib 5 (flat_frame p) = Inr [flat_segment p]"
  by (simp add: segment_by_route_def flat_groupby_route large_enough_def route_segment_def
      flat_segment_def)
     (simp add: flat_frame_def flight_columns_def failing_lib_def show_val_def)

lemma flat_route_small: "segment_by_route failing_lib 10 (flat_frame p) = Inr []"
  by (simp add: segment_by_route_def flat_groupby_route large_enough_def)
     (simp add: flat_frame_def flight_columns_def)

lemma flat_periods:
  "setcol (flat_frame p) ''period''
     [S ''2024-01-01'', S ''2024-01-01'', S ''2024-01-01'', S ''2024-01-01'',
      S ''2024-01-01'', S ''2024-01-01'', S ''2024-01-01''] = Inr (dated_frame p)"
  by (simp add: setcol_def flat_frame_def dated_frame_def flight_columns_def)

lemma dated_groupby:
  "groupby (val_le failing_lib) (cell_key ''period'') (dated_frame p) =
     [(S ''2024-01-01'', dated_frame p)]"
  by (simp add: groupby_def dated_frame_def List.map_filter_def cell_key_def is_na_def
      sort_by_def)

lemma dated_segment:
  "temporal_segment failing_lib (S ''2024-01-01'', dated_frame p) = Inr (period_segment p)"
  by (simp add: temporal_segment_def period_segment_def failing_lib_def show_val_def)
     (simp add: dated_frame_def flight_def)

lemma flat_temporal:
  "segment_by_temporal failing_lib 5 (flat_frame p) freq = (Inr [period_segment p], dated_frame p)"
proof -
  have d: "getcol (flat_frame p) ''date'' =
      Inr [S ''2024-01-01'', S ''2024-01-01'', S ''2024-01-01'', S ''2024-01-01'',
           S ''2024-01-01'', S ''2024-01-01'', S ''2024-01-01'']"
    by (simp add: getcol_def flat_frame_def flight_columns_def flight_def)
  have b: "large_enough 5 (S ''2024-01-01'', dated_frame p)"
    by (simp add: large_enough_def dated_frame_def)
  have t: "to_period failing_lib freq v = Inr v" for v
    by (simp add: failing_lib_def)
  show ?thesis
    by (simp add: segment_by_temporal_def d t flat_periods dated_groupby b dated_segment)
qed

lemma flat_hierarchical:
  "hierarchical_segmentation failing_lib 5 (flat_frame p) = Inr [leaf_segment p]"
  by (simp add: hierarchical_segmentation_def flat_route refine_route_def flat_segment_data
      flat_temporal leaf_segment_def)
     (simp add: flat_segment_def period_segment_def)

lemma leaf_well_sized: "well_sized 5 (leaf_segment p)"
  by (simp add: well_sized_def leaf_segment_def flat_segment_def period_segment_def
      dated_frame_def)

lemma flat_demand:
  "snd (segment_by_demand_pattern failing_lib 2 (flat_frame p)) = clustered_frame p"
proof -
  have k: "kmeans failing_lib k fs = Inr (map (\<lambda>x. 0) fs)" for k fs
    by (simp add: failing_lib_def)
  have c: "setcol (flat_frame p) ''demand_cluster'' [I 0, I 0, I 0, I 0, I 0, I 0, I 0] =
      Inr (clustered_frame p)"
    by (simp add: setcol_def flat_frame_def clustered_frame_def flight_columns_def)
  have n: "\<not> min 5 (int (length (rows (flat_frame p))) div 2) < 2"
    by (simp add: flat_frame_def)
  have f: "set [''days_to_departure'', ''occupancy_rate'', ''price''] \<subseteq> set (columns (flat_frame p))"
    by (simp add: flat_frame_def flight_columns_def)
  have r: "map (\<lambda>x. I 0) (rows (flat_frame p)) = [I 0, I 0, I 0, I 0, I 0, I 0, I 0]"
    by (simp add: flat_frame_def)
  show ?thesis
    using n f by (simp add: segment_by_demand_pattern_def Let_def k c r o_def)
qed

section \<open>Facts about the orchestrator\<close>

lemma divide_empty:
  assumes "rows df = []" and "divide L m df s = (Inr segs, df1)"
  shows "segs = [] \<and> rows df1 = []"
proof -
  have g: "groupby le key d = []" if "rows d = []" for le :: "'k \<Rightarrow> 'k \<Rightarrow> bool" and key d
    using that by (rule groupby_empty)
  have route: "segment_by_route L m df = Inr segs \<Longrightarrow> segs = []" for segs
    using assms(1) by (auto simp: segment_by_route_def g split: if_splits)
  have temporal: "segment_by_temporal L m df ''M'' = (Inr segs, df1) \<Longrightarrow> segs = [] \<and> rows df1 = []"
    using assms(1)
    by (auto simp: segment_by_temporal_def getcol_def setcol_def g split: sum.splits if_splits)
  have hier: "hierarchical_segmentation L m df = Inr segs \<Longrightarrow> segs = []"
    using route by (auto simp: hierarchical_segmentation_def split: sum.splits)
  have demand: "segment_by_demand_pattern L m df = (Inr segs, df1) \<Longrightarrow> segs = [] \<and> rows df1 = []"
    using assms(1)
    by (auto simp: segment_by_demand_pattern_def Let_def split: sum.splits if_splits)
  from assms(2) route temporal hier demand assms(1) show ?thesis
    by (auto simp: divide_def split: if_splits)
qed

lemma conquer_forecasts:
  assumes "sf \<in> set (conquer L segs h)"
  shows "0 \<le> h \<and> length (forecast sf) = nat h"
proof -
  from assms obtain seg f c where e: "Inr (f, c) = ensemble_forecast L seg h" and "forecast sf = f"
    by (auto simp: conquer_def split: sum.splits)
  with ensemble_forecast_length [OF e [symmetric]] show ?thesis by simp
qed

lemma confidence_based_forecast:
  assumes "confidence_based sfs = Inr r"
  shows "\<exists>f sf. r ''forecast'' = Some (PList f) \<and> sf \<in> set sfs \<and> length f = length (forecast sf)"
proof -
  from assms obtain f where avg: "np_average (map forecast sfs) (confidence_weights sfs) = Inr f"
    and r: "r ''forecast'' = Some (PList f)"
    by (auto simp: confidence_based_def Let_def split: sum.splits)
  from avg np_average_Nil have "sfs \<noteq> []" by (cases sfs) auto
  then obtain sf where sf: "sf \<in> set sfs" by (cases sfs) auto
  then have "forecast sf \<in> set (map forecast sfs)" by simp
  from np_average_length [OF avg this] r sf show ?thesis by blast
qed

lemma flat_global:
  "fst (predict failing_lib 10 (flat_frame p) 2 ''route'') =
     Inr [''forecast'' \<mapsto> PList [Fin p, Fin p],
          ''confidence'' \<mapsto> PFloat (if 0 < p then Fin 1 else Fin (5 / 10)),
          ''strategy'' \<mapsto> PStr ''global'', ''num_segments'' \<mapsto> PInt 0]"
proof -
  have d: "divide failing_lib 10 (flat_frame p) ''route'' = (Inr [], flat_frame p)"
    by (simp add: divide_def flat_route_small)
  have e: "ensemble_forecast failing_lib \<lparr>segment_id = ''global'', data = flat_frame p,
      metadata = Map.empty, segment_type = ''global''\<rparr> 2 =
      Inr ([Fin p, Fin p], if 0 < p then Fin 1 else Fin (5 / 10))"
    by (rule flat_ensemble) simp
  show ?thesis by (simp add: predict_def d e)
qed

lemma flat_conquer:
  "conquer failing_lib [flat_segment 700] 2 =
     [\<lparr>sf_segment_id = ''route_A_B'', forecast = [Fin 700, Fin 700], confidence = Fin 1,
       sf_metadata = metadata (flat_segment 700)\<rparr>]"
  by (simp add: conquer_def flat_ensemble flat_segment_data) (simp add: flat_segment_def)

lemma flat_merged:
  "fst (predict failing_lib 5 (flat_frame 700) 2 ''route'') =
     Inr [''forecast'' \<mapsto> PList [Fin 700, Fin 700], ''confidence'' \<mapsto> PFloat (Fin 1),
          ''num_segments'' \<mapsto> PInt 1, ''strategy'' \<mapsto> PStr ''confidence_based'',
          ''segment_contributions'' \<mapsto> PList [Fin 1],
          ''segmentation_strategy'' \<mapsto> PStr ''route'']"
proof -
  have d: "divide failing_lib 5 (flat_frame 700) ''route'' = (Inr [flat_segment 700], flat_frame 700)"
    by (simp add: divide_def flat_route)
  have c: "confidence_based (conquer failing_lib [flat_segment 700] 2) =
      Inr [''forecast'' \<mapsto> PList [Fin 700, Fin 700], ''confidence'' \<mapsto> PFloat (Fin 1),
           ''num_segments'' \<mapsto> PInt 1, ''strategy'' \<mapsto> PStr ''confidence_based'',
           ''segment_contributions'' \<mapsto> PList [Fin 1]]"
    by (simp add: flat_conquer confidence_based_def confidence_weights_def Let_def np_sum_def
        np_average_def ragged_def column_def np_max_def eval_nat_numeral upt_conv_Cons)
  show ?thesis by (simp add: predict_def d merge_def c)
qed

lemma empty_predict:
  "fst (predict failing_lib 10 empty_frame 2 ''route'') = Inl ValueError"
proof -
  have g: "groupby (pair_le (val_le failing_lib)) route_key empty_frame = []"
    by (rule groupby_empty) (simp add: empty_frame_def)
  have d: "divide failing_lib 10 empty_frame ''route'' = (Inr [], empty_frame)"
    by (simp add: divide_def segment_by_route_def g) (simp add: empty_frame_def flight_columns_def)
  have m: "forecast_moving_average \<lparr>segment_id = ''global'', data = empty_frame,
      metadata = Map.empty, segment_type = ''global''\<rparr> 2 7 = Inl ValueError"
    by (simp add: forecast_moving_average_def prices_of_def getcol_def empty_frame_def
        flight_columns_def np_convolve_valid_def)
  show ?thesis
    by (simp add: predict_def d ensemble_forecast_def ensemble_members_def m)
qed

section \<open>The segment forecaster: claims\<close>

text \<open>
  Claim C3: for a segment on which both the autoregressive model and exponential smoothing
  fail, the ensemble returns a forecast built from the moving average alone, with
  confidence exactly 0.6.

  The code does not do this.  On the example segment (seven records at price 700) with a
  library whose two models raise, each failing model is replaced by the moving average
  inside its own function, the ensemble has three members that agree, and the confidence
  is 1.
\<close>

theorem failed_models_confidence:
  "arima failing_lib [Fin 700, Fin 700, Fin 700, Fin 700, Fin 700, Fin 700, Fin 700] 2 = None \<and>
   exp_smoothing failing_lib [Fin 700, Fin 700, Fin 700, Fin 700, Fin 700, Fin 700, Fin 700] 2 = None \<and>
   prices_of (flat_segment 700) = Inr [Fin 700, Fin 700, Fin 700, Fin 700, Fin 700, Fin 700, Fin 700] \<and>
   ensemble_forecast failing_lib (flat_segment 700) 2 = Inr ([Fin 700, Fin 700], Fin 1)"
  by (simp add: flat_ensemble flat_prices flat_segment_data) (simp add: failing_lib_def)

text \<open>
  Claim C9: when at least two ensemble members contributed, the confidence returned by
  \<open>ensemble_forecast\<close> lies between 0 and 1.
\<close>

theorem ensemble_confidence_in_unit_interval:
  assumes "ensemble_members L seg h = Inr ms" and "2 \<le> length ms"
    and "ensemble_forecast L seg h = Inr (f, c)"
  shows "fl_le (Fin 0) c \<and> fl_le c (Fin 1)"
  using ensemble_forecast_confidence [OF assms(3)] agreement_confidence_bounds by auto

theorem ensemble_confidence_in_unit_interval_witness:
  "ensemble_members failing_lib (flat_segment 700) 2 =
     Inr [([Fin 700, Fin 700], Fin (4 / 10)), ([Fin 700, Fin 700], Fin (3 / 10)),
          ([Fin 700, Fin 700], Fin (3 / 10))] \<and>
   ensemble_forecast failing_lib (flat_segment 700) 2 = Inr ([Fin 700, Fin 700], Fin 1) \<and>
   fl_le (Fin 0) (Fin 1) \<and> fl_le (Fin 1) (Fin 1)"
proof -
  have m: "ensemble_members failing_lib (flat_segment 700) 2 =
     Inr [([Fin 700, Fin 700], Fin (4 / 10)), ([Fin 700, Fin 700], Fin (3 / 10)),
          ([Fin 700, Fin 700], Fin (3 / 10))]"
    using flat_members [OF flat_segment_data, of 2 700] by (simp add: eval_nat_numeral)
  have n: "2 \<le> length [([Fin 700, Fin 700], Fin (4 / 10)), ([Fin 700, Fin 700], Fin (3 / 10)),
          ([Fin (700::real), Fin 700], Fin (3 / 10))]"
    by simp
  have e: "ensemble_forecast failing_lib (flat_segment 700) 2 = Inr ([Fin 700, Fin 700], Fin 1)"
    by (simp add: flat_ensemble flat_segment_data)
  from ensemble_confidence_in_unit_interval [OF m n e] m e show ?thesis by simp
qed

text \<open>
  Claim C10: when more than one ensemble member contributes and the mean of the combined
  forecast is not strictly positive, \<open>ensemble_forecast\<close> returns the confidence 0.5.
\<close>

theorem ensemble_nonpositive_mean_confidence:
  assumes "ensemble_members L seg h = Inr ms" and "1 < length ms"
    and "ensemble_forecast L seg h = Inr (f, c)"
    and "\<not> fl_gt (np_mean f) (Fin 0)"
  shows "c = Fin (5 / 10)"
  using ensemble_forecast_confidence [OF assms(3)] assms(1,2,4)
  by (auto simp: agreement_confidence_def Let_def)

theorem ensemble_nonpositive_mean_confidence_witness:
  "ensemble_members failing_lib (flat_segment 0) 2 =
     Inr [([Fin 0, Fin 0], Fin (4 / 10)), ([Fin 0, Fin 0], Fin (3 / 10)),
          ([Fin 0, Fin 0], Fin (3 / 10))] \<and>
   ensemble_forecast failing_lib (flat_segment 0) 2 = Inr ([Fin 0, Fin 0], Fin (5 / 10)) \<and>
   \<not> fl_gt (np_mean [Fin 0, Fin 0]) (Fin 0)"
proof -
  have m: "ensemble_members failing_lib (flat_segment 0) 2 =
     Inr [([Fin 0, Fin 0], Fin (4 / 10)), ([Fin 0, Fin 0], Fin (3 / 10)),
          ([Fin 0, Fin 0], Fin (3 / 10))]"
    using flat_members [OF flat_segment_data, of 2 0] by (simp add: eval_nat_numeral)
  have n: "1 < length [([Fin 0, Fin 0], Fin (4 / 10)), ([Fin 0, Fin 0], Fin (3 / 10)),
          ([Fin (0::real), Fin 0], Fin (3 / 10))]"
    by simp
  have e: "ensemble_forecast failing_lib (flat_segment 0) 2 = Inr ([Fin 0, Fin 0], Fin (5 / 10))"
    by (simp add: flat_ensemble flat_segment_data)
  have p: "\<not> fl_gt (np_mean [Fin 0, Fin 0]) (Fin 0)"
    by (simp add: np_mean_def np_sum_def)
  from ensemble_nonpositive_mean_confidence [OF m n e p] m e p show ?thesis by simp
qed

section \<open>The forecast merger: claims\<close>

text \<open>
  Claim C6: for every non-empty list of segment forecasts, the weights of the
  \<open>weighted_average\<close> strategy (sizes / total size) and of the \<open>confidence_based\<close>
  strategy (confidences / confidence sum) each sum to 1.

  As stated the claim fails, in its \<open>confidence_based\<close> half only: for the single
  forecast with confidence 0 and size 10 the confidence sum is 0, the only weight is 0 / 0,
  and the weights sum to NaN, while the \<open>weighted_average\<close> weight is 1.
\<close>

theorem merge_weights_counterexample:
  "[doubtful_forecast] \<noteq> [] \<and>
   confidence_weights [doubtful_forecast] = [NaN] \<and>
   np_sum (confidence_weights [doubtful_forecast]) \<noteq> Fin 1 \<and>
   size_weights [doubtful_forecast] = Inr [Fin 1] \<and>
   np_sum [Fin 1] = Fin 1"
  by (simp add: doubtful_weights doubtful_size_weights np_sum_def)

text \<open>
  Claim C6, amended: for every non-empty list of segment forecasts, the weights that the
  \<open>weighted_average\<close> strategy computes from finite sizes sum to 1, whatever the
  confidences are, and it computes them whenever the total size is not zero (a zero total
  raises); the \<open>confidence_based\<close> weights sum to 1 whenever the confidences are
  finite and their sum is not zero.
\<close>

theorem merge_weights_sum_to_one:
  assumes "sfs \<noteq> []"
  shows "(collect (map size_of sfs) = Inr (map Fin ns) \<longrightarrow>
            (size_weights sfs = Inr ws \<longrightarrow> np_sum ws = Fin 1) \<and>
            (sum_list ns \<noteq> 0 \<longrightarrow> (\<exists>ws'. size_weights sfs = Inr ws'))) \<and>
         (map confidence sfs = map Fin cs \<longrightarrow> sum_list cs \<noteq> 0 \<longrightarrow>
            np_sum (confidence_weights sfs) = Fin 1)"
proof (intro conjI impI)
  assume "collect (map size_of sfs) = Inr (map Fin ns)" and "size_weights sfs = Inr ws"
  with assms show "np_sum ws = Fin 1"
    by (rule size_weights_computed)
next
  assume "collect (map size_of sfs) = Inr (map Fin ns)" and "sum_list ns \<noteq> 0"
  then show "\<exists>ws'. size_weights sfs = Inr ws'"
    using size_weights_sum by blast
next
  assume "map confidence sfs = map Fin cs" and "sum_list cs \<noteq> 0"
  then show "np_sum (confidence_weights sfs) = Fin 1"
    by (rule confidence_weights_sum)
qed

theorem merge_weights_sum_to_one_witness:
  "steady_forecasts \<noteq> [] \<and>
   collect (map size_of steady_forecasts) = Inr (map Fin [10, 30]) \<and>
   size_weights steady_forecasts = Inr [Fin (1 / 4), Fin (3 / 4)] \<and>
   np_sum [Fin (1 / 4), Fin (3 / 4)] = Fin 1 \<and>
   map confidence steady_forecasts = map Fin [1 / 4, 3 / 4] \<and>
   np_sum (confidence_weights steady_forecasts) = Fin 1"
proof -
  have a: "steady_forecasts \<noteq> []" by (simp add: steady_forecasts_def)
  have b: "(sum_list [1 / 4, 3 / 4] :: real) \<noteq> 0" by simp
  from merge_weights_sum_to_one [OF a, of "[10, 30]" "[Fin (1 / 4), Fin (3 / 4)]" "[1 / 4, 3 / 4]"]
    a b steady_conf steady_sizes steady_size_weights
  show ?thesis by simp
qed

text \<open>
  Claim C7: for every non-empty list of segment forecasts, the \<open>confidence_based\<close> merge
  weights each segment by its confidence normalized to sum to 1, returns the
  confidence-weighted elementwise average of the member forecasts, and the merged
  confidence is the maximum member confidence.

  As stated the claim fails: for the single forecast \<open>[100]\<close> with confidence 0 the
  weight is NaN, not 1, and the merged forecast is \<open>[NaN]\<close>, not \<open>[100]\<close>.
\<close>

theorem confidence_based_counterexample:
  "[doubtful_forecast] \<noteq> [] \<and>
   entry (confidence_based [doubtful_forecast]) ''segment_contributions'' = Some (PList [NaN]) \<and>
   entry (confidence_based [doubtful_forecast]) ''forecast'' = Some (PList [NaN]) \<and>
   forecast doubtful_forecast = [Fin 100]"
  by (simp add: doubtful_merge entry_def) (simp add: doubtful_forecast_def)

text \<open>
  Claim C7, amended: for every non-empty list of segment forecasts whose confidences are
  finite with a sum that is not zero and whose forecast vectors have one length \<open>h\<close>,
  the \<open>confidence_based\<close> merge returns; its weights are the confidences divided by
  their sum, and sum to 1; entry \<open>j\<close> of the merged forecast is the sum over the segments
  of weight times entry \<open>j\<close> of the segment's forecast; and the merged confidence is the
  maximum member confidence.
\<close>

theorem confidence_based_merge:
  assumes "sfs \<noteq> []" and "map confidence sfs = map Fin cs" and "sum_list cs \<noteq> 0"
    and "\<forall>sf \<in> set sfs. length (forecast sf) = h"
  shows "\<exists>r. confidence_based sfs = Inr r \<and>
     r ''segment_contributions'' = Some (PList (map (\<lambda>c. Fin (c / sum_list cs)) cs)) \<and>
     np_sum (map (\<lambda>c. Fin (c / sum_list cs)) cs) = Fin 1 \<and>
     r ''forecast'' = Some (PList (map (\<lambda>j. np_sum (map2 fl_mul (column (map forecast sfs) j)
                                     (map (\<lambda>c. Fin (c / sum_list cs)) cs))) [0 ..< h])) \<and>
     r ''confidence'' = Some (PFloat (Fin (Max (set cs))))"
proof -
  let ?w = "map (\<lambda>c. Fin (c / sum_list cs)) cs"
  have w: "confidence_weights sfs = ?w"
    by (rule confidence_weights_Fin [OF assms(2,3)])
  have s: "np_sum ?w = Fin 1"
    using confidence_weights_sum [OF assms(2,3)] w by simp
  have len: "length cs = length sfs"
    using assms(2) by (metis length_map)
  have avg: "np_average (map forecast sfs) ?w =
      Inr (map (\<lambda>j. np_sum (map2 fl_mul (column (map forecast sfs) j) ?w)) [0 ..< h])"
    using assms(1,4) len s by (intro np_average_normalized) auto
  have "cs \<noteq> []" using assms(1) len by auto
  then have mx: "np_max (map confidence sfs) = Inr (Fin (Max (set cs)))"
    using assms(2) by (simp add: np_max_Fin)
  show ?thesis
    using s by (simp add: confidence_based_def Let_def w avg mx)
qed

theorem confidence_based_merge_witness:
  "steady_forecasts \<noteq> [] \<and>
   map confidence steady_forecasts = map Fin [1 / 4, 3 / 4] \<and>
   entry (confidence_based steady_forecasts) ''segment_contributions'' =
     Some (PList [Fin (1 / 4), Fin (3 / 4)]) \<and>
   entry (confidence_based steady_forecasts) ''forecast'' = Some (PList [Fin 175]) \<and>
   entry (confidence_based steady_forecasts) ''confidence'' = Some (PFloat (Fin (3 / 4)))"
proof -
  have a: "steady_forecasts \<noteq> []" by (simp add: steady_forecasts_def)
  have b: "(sum_list [1 / 4, 3 / 4] :: real) \<noteq> 0" by simp
  have c: "\<forall>sf \<in> set steady_forecasts. length (forecast sf) = 1"
    by (simp add: steady_forecasts_def)
  from confidence_based_merge [OF a steady_conf b c] a steady_conf show ?thesis
    by (auto simp: entry_def column_def np_sum_def steady_forecasts_def)
qed

section \<open>The segmenter: claims\<close>

text \<open>
  Claim C1: for every dataset and every segmentation strategy (route, temporal,
  demand pattern, hierarchical), every segment returned has a metadata size that is at
  least \<open>min_segment_size\<close> and a record set that is not empty.
\<close>

theorem segments_well_sized:
  assumes "segment_by_route L m df = Inr segs
         \<or> fst (segment_by_temporal L m df freq) = Inr segs
         \<or> fst (segment_by_demand_pattern L m df) = Inr segs
         \<or> hierarchical_segmentation L m df = Inr segs"
    and "s \<in> set segs"
  shows "well_sized m s"
proof -
  from assms(1) consider
      (route) "segment_by_route L m df = Inr segs"
    | (temporal) "fst (segment_by_temporal L m df freq) = Inr segs"
    | (demand) "fst (segment_by_demand_pattern L m df) = Inr segs"
    | (hierarchical) "hierarchical_segmentation L m df = Inr segs"
    by blast
  then show ?thesis
  proof cases
    case route
    from route_well_sized [OF route assms(2)] show ?thesis by simp
  next
    case temporal
    from temporal_well_sized [OF temporal assms(2)] show ?thesis by simp
  next
    case demand
    from demand_well_sized [OF demand assms(2)] show ?thesis .
  next
    case hierarchical
    from hierarchical_well_sized [OF hierarchical assms(2)] show ?thesis .
  qed
qed

theorem segments_well_sized_witness:
  "hierarchical_segmentation failing_lib 5 (flat_frame 700) = Inr [leaf_segment 700] \<and>
   leaf_segment 700 \<in> set [leaf_segment 700] \<and>
   well_sized 5 (leaf_segment 700)"
proof -
  have h: "hierarchical_segmentation failing_lib 5 (flat_frame 700) = Inr [leaf_segment 700]"
    by (rule flat_hierarchical)
  then have d: "segment_by_route failing_lib 5 (flat_frame 700) = Inr [leaf_segment 700]
         \<or> fst (segment_by_temporal failing_lib 5 (flat_frame 700) ''W'') = Inr [leaf_segment 700]
         \<or> fst (segment_by_demand_pattern failing_lib 5 (flat_frame 700)) = Inr [leaf_segment 700]
         \<or> hierarchical_segmentation failing_lib 5 (flat_frame 700) = Inr [leaf_segment 700]"
    by simp
  have s: "leaf_segment 700 \<in> set [leaf_segment 700]" by simp
  from segments_well_sized [OF d s] h s show ?thesis by simp
qed

text \<open>
  Claim C4: no segmentation operation changes the dataset it is given: after any call the
  caller's frame has the same columns, rows and values.

  The code does not do this.  \<open>segment_by_temporal\<close> assigns \<open>df['period']\<close> and
  \<open>segment_by_demand_pattern\<close> assigns \<open>df['demand_cluster']\<close> on the frame they are
  passed: on the example frame of seven records each call leaves the caller's frame with
  one column more.  \<open>segment_by_route\<close> only reads the frame.
\<close>

theorem segmentation_changes_frame:
  "columns (flat_frame 700) = flight_columns \<and>
   snd (segment_by_temporal failing_lib 5 (flat_frame 700) ''M'') = dated_frame 700 \<and>
   columns (dated_frame 700) = flight_columns @ [''period''] \<and>
   snd (segment_by_demand_pattern failing_lib 2 (flat_frame 700)) = clustered_frame 700 \<and>
   columns (clustered_frame 700) = flight_columns @ [''demand_cluster'']"
  by (simp add: flat_temporal flat_demand)
     (simp add: flat_frame_def dated_frame_def clustered_frame_def)

section \<open>The orchestrator: claims\<close>

text \<open>
  Claim C2: every run of \<open>predict\<close> that returns a forecast returns a forecast vector
  whose length is the requested horizon, on the merged path and on the path taken when
  there are no segments.
\<close>

theorem forecast_length_is_horizon:
  assumes "fst (predict L m df h s) = Inr r"
  shows "\<exists>f. r ''forecast'' = Some (PList f) \<and> int (length f) = h"
proof (cases "divide L m df s")
  case (Pair res df1)
  show ?thesis
  proof (cases res)
    case (Inl e)
    with Pair assms show ?thesis by (simp add: predict_def)
  next
    case (Inr segs)
    show ?thesis
    proof (cases "segs = []")
      case True
      with Pair Inr assms obtain f c where
        e: "ensemble_forecast L \<lparr>segment_id = ''global'', data = df1, metadata = Map.empty,
                     segment_type = ''global''\<rparr> h = Inr (f, c)"
        and r: "r = [''forecast'' \<mapsto> PList f, ''confidence'' \<mapsto> PFloat c,
                       ''strategy'' \<mapsto> PStr ''global'', ''num_segments'' \<mapsto> PInt 0]"
        by (auto simp: predict_def split: sum.splits)
      from ensemble_forecast_length [OF e] r show ?thesis by simp
    next
      case False
      with Pair Inr assms obtain mr where
        mr: "confidence_based (conquer L segs h) = Inr mr"
        and r: "r = mr(''segmentation_strategy'' \<mapsto> PStr s)"
        by (auto simp: predict_def merge_def split: sum.splits)
      from confidence_based_forecast [OF mr] obtain f sf
        where f: "mr ''forecast'' = Some (PList f)" and sf: "sf \<in> set (conquer L segs h)"
          and len: "length f = length (forecast sf)" by blast
      from conquer_forecasts [OF sf] len f r show ?thesis by simp
    qed
  qed
qed

theorem forecast_length_is_horizon_witness:
  "entry (fst (predict failing_lib 5 (flat_frame 700) 2 ''route'')) ''forecast'' =
     Some (PList [Fin 700, Fin 700]) \<and>
   entry (fst (predict failing_lib 5 (flat_frame 700) 2 ''route'')) ''num_segments'' =
     Some (PInt 1) \<and>
   entry (fst (predict failing_lib 10 (flat_frame 700) 2 ''route'')) ''forecast'' =
     Some (PList [Fin 700, Fin 700]) \<and>
   entry (fst (predict failing_lib 10 (flat_frame 700) 2 ''route'')) ''num_segments'' =
     Some (PInt 0) \<and>
   int (length [Fin 700, Fin 700]) = 2"
proof -
  note merged = forecast_length_is_horizon [OF flat_merged]
  note global = forecast_length_is_horizon [OF flat_global [of 700]]
  from merged global show ?thesis
    by (simp add: flat_merged flat_global entry_def)
qed

text \<open>
  Claim C5: for a dataset without records, \<open>predict\<close> ends in a failure that
  reaches the caller, and returns no forecast.
\<close>

theorem empty_dataset_fails:
  assumes "rows df = []"
  shows "\<exists>e. fst (predict L m df h s) = Inl e"
proof (cases "divide L m df s")
  case (Pair res df1)
  show ?thesis
  proof (cases res)
    case (Inl e)
    with Pair show ?thesis by (simp add: predict_def)
  next
    case (Inr segs)
    with Pair divide_empty [OF assms] have e: "segs = []" "rows df1 = []" by auto
    from empty_ensemble [of "\<lparr>segment_id = ''global'', data = df1, metadata = Map.empty,
                     segment_type = ''global''\<rparr>" L h] e(2)
    obtain err where "ensemble_forecast L \<lparr>segment_id = ''global'', data = df1, metadata = Map.empty,
                     segment_type = ''global''\<rparr> h = Inl err" by auto
    with Pair Inr e show ?thesis by (simp add: predict_def)
  qed
qed

theorem empty_dataset_fails_witness:
  "rows empty_frame = [] \<and>
   fst (predict failing_lib 10 empty_frame 2 ''route'') = Inl ValueError"
proof -
  have e: "rows empty_frame = []" by (simp add: empty_frame_def)
  from empty_dataset_fails [OF e, of failing_lib 10 2 "''route''"] e show ?thesis
    by (simp add: empty_predict)
qed

text \<open>
  Claim C8: every run of \<open>predict\<close> that returns a result, also on the path taken
  when there are no segments, returns the requested \<open>segmentation_strategy\<close> in it.

  The code does not do this.  With seven records and \<open>min_segment_size = 10\<close> the
  route segmentation yields no segment, \<open>predict\<close> returns the dict of the global
  forecast, and that dict has no key \<open>segmentation_strategy\<close>; with
  \<open>min_segment_size = 5\<close> the merged result has it.
\<close>

theorem global_result_lacks_strategy:
  "entry (fst (predict failing_lib 10 (flat_frame 700) 2 ''route'')) ''strategy'' =
     Some (PStr ''global'') \<and>
   entry (fst (predict failing_lib 10 (flat_frame 700) 2 ''route'')) ''num_segments'' =
     Some (PInt 0) \<and>
   entry (fst (predict failing_lib 10 (flat_frame 700) 2 ''route'')) ''segmentation_strategy'' =
     None \<and>
   entry (fst (predict failing_lib 5 (flat_frame 700) 2 ''route'')) ''segmentation_strategy'' =
     Some (PStr ''route'')"
  by (simp add: flat_global flat_merged entry_def)

end
